theory Spec2Isabelle
  imports Complex_Main "HOL-Library.Sublist" "HOL-Library.Log_Nat"
begin

section \<open>The agentic retrieval controller of backend/agentic\_rag.py\<close>

text \<open>
  A shallow embedding of \<^verbatim>\<open>AgenticFitnessRAG\<close>. Python \<^verbatim>\<open>str\<close> is modelled as
  \<^typ>\<open>string\<close>, dictionaries as records with optional fields or as maps, exceptions as
  values of type \<open>error\<close>. A Python float is held as the \<^typ>\<open>real\<close> it stands for. The
  two threshold tests that choose the search strategy are computed in IEEE binary64, as
  the interpreter does; the scores themselves are written in exact arithmetic.
\<close>

subsection \<open>Python string operations\<close>

text \<open>\<^verbatim>\<open>str.lower\<close> on the ASCII letters; every other character is left as it is.\<close>

definition lower_char :: "char \<Rightarrow> char" where
  "lower_char c =
     (case map_of (zip ''ABCDEFGHIJKLMNOPQRSTUVWXYZ'' ''abcdefghijklmnopqrstuvwxyz'') c of
        None \<Rightarrow> c
      | Some l \<Rightarrow> l)"

definition lower :: "string \<Rightarrow> string" where
  "lower s = map lower_char s"

text \<open>\<^verbatim>\<open>sub in s\<close> for two strings: \<open>sub\<close> occurs in \<open>s\<close> as a contiguous block.\<close>

primrec contains :: "string \<Rightarrow> string \<Rightarrow> bool" where
  "contains [] sub = (sub = [])"
| "contains (c # cs) sub = (prefix sub (c # cs) \<or> contains cs sub)"

text \<open>
  \<^verbatim>\<open>s.replace(old, new)\<close> for a non-empty \<open>old\<close>: the non-overlapping occurrences of
  \<open>old\<close> are replaced from left to right. (The source only calls it with non-empty
  constants; for an empty \<open>old\<close> this model returns \<open>s\<close>.)
\<close>

function replace :: "string \<Rightarrow> string \<Rightarrow> string \<Rightarrow> string" where
  "replace old new [] = []"
| "replace old new (c # cs) =
     (if old \<noteq> [] \<and> prefix old (c # cs)
      then new @ replace old new (drop (length old) (c # cs))
      else c # replace old new cs)"
  by pat_completeness auto
termination
  by (relation "measure (\<lambda>(old, new, s). length s)") (auto simp: Suc_le_eq)

subsection \<open>Data model\<close>

datatype error = ZeroDivisionError | ValueError | SearchError

datatype AgentStrategy =
  BROAD_SEARCH | TARGETED_SEARCH | PROGRESSIVE_REFINEMENT | MULTI_ANGLE_APPROACH

fun strategy_value :: "AgentStrategy \<Rightarrow> string" where
  "strategy_value BROAD_SEARCH = ''broad_search''"
| "strategy_value TARGETED_SEARCH = ''targeted_search''"
| "strategy_value PROGRESSIVE_REFINEMENT = ''progressive_refinement''"
| "strategy_value MULTI_ANGLE_APPROACH = ''multi_angle_approach''"

record SearchResult =
  content :: string
  relevance_score :: real
  source :: string
  exercise_type :: string
  target_muscles :: "string list"
  difficulty :: string

record AgentPlan =
  primary_goal :: string
  sub_goals :: "string list"
  search_strategies :: "AgentStrategy list"
  expected_iterations :: int
  success_criteria :: "string \<rightharpoonup> real"

text \<open>
  One hit of the search capability: a dictionary read with \<^verbatim>\<open>.get\<close>, so every key may
  be absent (\<open>None\<close>). A \<^verbatim>\<open>distance\<close> of \<^verbatim>\<open>None\<close> is \<open>None\<close> here as well. A key
  that is present holds a value of the type the interface gives it (a string, a mapping
  from strings to strings, a float, a list of strings).
\<close>

record exercise =
  ex_content :: "string option"
  ex_metadata :: "(string \<rightharpoonup> string) option"
  ex_distance :: "real option"
  ex_muscle_groups :: "string list option"
  ex_difficulty :: "string option"

text \<open>
  The search capability \<^verbatim>\<open>vector_store.search_exercises(query, filters=None, top_k)\<close>:
  it may depend on a state of its own (so that any sequence of responses can be given)
  and it may raise (\<open>Inl\<close>).
\<close>

type_synonym 's search_capability = "'s \<Rightarrow> string \<Rightarrow> nat \<Rightarrow> 's \<times> (error + exercise list)"

text \<open>The quality dictionary; the key \<^verbatim>\<open>meets_criteria\<close> may be absent.\<close>

record quality_assessment =
  overall_score :: real
  relevance :: real
  coverage :: real
  diversity :: real
  meets_criteria :: "bool option"

record memory_entry =
  quality_score :: real
  result_count :: nat
  timestamp :: string

type_synonym agent_memory = "string \<rightharpoonup> memory_entry list"

subsection \<open>Python floats (IEEE binary64)\<close>

text \<open>
  Rounding of a real to the nearest binary64 number, ties to the even significand:
  \<open>binade x\<close> is the exponent \<open>e\<close> with \<open>2^e \<le> x < 2^(e+1)\<close> for a positive \<open>x\<close>, the
  spacing of the floats around \<open>x\<close> is \<open>2^(e - 52)\<close>, and \<open>2^(-1074)\<close> in the subnormal
  range. \<open>float_of\<close> is \<open>None\<close> when the rounded value exceeds the largest float, where
  the interpreter yields an infinity.
\<close>

definition pow2 :: "int \<Rightarrow> real" where
  "pow2 e = (if 0 \<le> e then 2 ^ nat e else 1 / 2 ^ nat (- e))"

definition round_half_even :: "real \<Rightarrow> int" where
  "round_half_even x =
     (let f = \<lfloor>x\<rfloor>; d = x - of_int f
      in if d < 1 / 2 then f else if 1 / 2 < d then f + 1 else if even f then f else f + 1)"

definition binade :: "real \<Rightarrow> int" where
  "binade x = (if 1 \<le> x then bitlen \<lfloor>x\<rfloor> - 1 else - bitlen (\<lceil>1 / x\<rceil> - 1))"

definition float_round :: "real \<Rightarrow> real" where
  "float_round x =
     (if x = 0 then 0
      else (let ulp = pow2 (max (binade \<bar>x\<bar>) (- 1022) - 52)
            in sgn x * (of_int (round_half_even (\<bar>x\<bar> / ulp)) * ulp)))"

definition max_float :: real where
  "max_float = (2 ^ 53 - 1) * 2 ^ 971"

definition float_of :: "real \<Rightarrow> real option" where
  "float_of x = (let y = float_round x in if \<bar>y\<bar> \<le> max_float then Some y else None)"

text \<open>
  \<^verbatim>\<open>sum(...)\<close> over floats in CPython up to 3.11: one binary64 addition per element, from
  left to right, starting from 0. \<open>None\<close> stands for an infinity or a NaN, which no
  further addition makes finite again. Each score is read as the float it stands for.
\<close>

definition float_add :: "real option \<Rightarrow> real \<Rightarrow> real option" where
  "float_add acc x =
     (case acc of
        None \<Rightarrow> None
      | Some a \<Rightarrow> (case float_of x of None \<Rightarrow> None | Some b \<Rightarrow> float_of (a + b)))"

definition float_sum :: "real list \<Rightarrow> real option" where
  "float_sum xs = foldl float_add (Some 0) xs"

text \<open>The sum divided by the length (a positive integer, converted exactly).\<close>

definition float_mean :: "real list \<Rightarrow> real option" where
  "float_mean xs =
     (case float_sum xs of
        None \<Rightarrow> None
      | Some numerator \<Rightarrow> float_of (numerator / real (length xs)))"

subsection \<open>Strategy selection\<close>

definition general_terms :: "string list" where
  "general_terms = [''general'', ''basic'', ''beginner'', ''simple'']"

text \<open>
  \<^verbatim>\<open>general_count > len(results) * 0.7\<close>: the length is converted to a float (exactly, a
  list being shorter than \<open>2^53\<close>), multiplied in binary64 with the float \<open>0.7\<close>, and the
  integer count is compared with that product exactly.
\<close>

definition results_lack_specificity :: "SearchResult list \<Rightarrow> bool" where
  "results_lack_specificity results =
     (let general_count =
            length (filter (\<lambda>r. list_ex (\<lambda>term. contains (lower (exercise_type r)) term)
                                       general_terms)
                      results)
      in real general_count > float_round (real (length results) * float_round 0.7))"

text \<open>
  \<^verbatim>\<open>sum(r.relevance_score for r in results) / len(results) if results else 0\<close> in
  binary64, then \<^verbatim>\<open>0.4 < avg_score < 0.7\<close>. A sum or mean that is not finite fails the
  test.
\<close>

definition results_need_refinement :: "SearchResult list \<Rightarrow> bool" where
  "results_need_refinement results =
     (case (if results \<noteq> [] then float_mean (map relevance_score results) else Some 0) of
        None \<Rightarrow> False
      | Some avg_score \<Rightarrow> float_round 0.4 < avg_score \<and> avg_score < float_round 0.7)"

definition select_optimal_strategy ::
    "AgentPlan \<Rightarrow> SearchResult list \<Rightarrow> nat \<Rightarrow> error + AgentStrategy" where
  "select_optimal_strategy plan current_results iteration =
     (if iteration = 0 then Inr BROAD_SEARCH
      else if length current_results < 3 then Inr MULTI_ANGLE_APPROACH
      else if results_lack_specificity current_results then Inr TARGETED_SEARCH
      else if results_need_refinement current_results then Inr PROGRESSIVE_REFINEMENT
      else if search_strategies plan = [] then Inl ZeroDivisionError
      else Inr (search_strategies plan ! (iteration mod length (search_strategies plan))))"

subsection \<open>Planning\<close>

text \<open>
  \<^verbatim>\<open>_create_strategic_plan\<close>. The argument \<open>visual_insights\<close> gives, for each key, the
  truth value of \<^verbatim>\<open>visual_insights.get(key)\<close>.
\<close>

definition default_success_criteria :: "string \<rightharpoonup> real" where
  "default_success_criteria =
     [''relevance_threshold'' \<mapsto> 0.7, ''coverage_target'' \<mapsto> 0.8,
      ''diversity_minimum'' \<mapsto> 3, ''practical_applicability'' \<mapsto> 0.9]"

definition create_strategic_plan :: "int \<Rightarrow> string \<Rightarrow> (string \<Rightarrow> bool) \<Rightarrow> AgentPlan" where
  "create_strategic_plan max_iterations goal visual_insights =
     (let (subs, strategies) =
        (if goal = ''weight_loss'' then
           ([''find_high_intensity_cardio'', ''identify_calorie_burning_exercises'',
             ''locate_nutrition_guidance'', ''discover_progression_strategies'']
            @ (if visual_insights ''form_issues'' then [''address_form_corrections''] else [])
            @ (if visual_insights ''equipment_available'' then [''utilize_available_equipment''] else []),
            [BROAD_SEARCH, TARGETED_SEARCH])
         else if goal = ''muscle_gain'' then
           ([''find_progressive_strength_exercises'', ''identify_muscle_building_protocols'',
             ''locate_nutrition_for_growth'', ''discover_recovery_strategies'']
            @ (if visual_insights ''muscle_definition'' then [''target_specific_muscle_groups''] else [])
            @ (if visual_insights ''posture_issues'' then [''address_postural_corrections''] else []),
            [TARGETED_SEARCH, PROGRESSIVE_REFINEMENT])
         else if goal = ''cardio'' then
           ([''find_endurance_training_methods'', ''identify_cardio_progressions'',
             ''locate_heart_rate_guidance'', ''discover_training_variations'']
            @ (if visual_insights ''current_fitness_level'' then [''adjust_intensity_for_level''] else [])
            @ (if visual_insights ''equipment_available'' then [''optimize_available_equipment''] else []),
            [BROAD_SEARCH, MULTI_ANGLE_APPROACH])
         else
           ([''find_foundational_exercises'', ''identify_balanced_routines'',
             ''locate_beginner_progressions'', ''discover_safety_guidelines'']
            @ (if visual_insights ''form_assessment'' then [''improve_exercise_form''] else [])
            @ (if visual_insights ''mobility_issues'' then [''address_mobility_limitations''] else [])
            @ (if visual_insights ''equipment_assessment'' then [''adapt_for_equipment_constraints''] else []),
            [BROAD_SEARCH, PROGRESSIVE_REFINEMENT]))
      in \<lparr> primary_goal = goal, sub_goals = subs, search_strategies = strategies,
           expected_iterations = min (int (length subs)) max_iterations,
           success_criteria = default_success_criteria \<rparr>)"

subsection \<open>Search execution\<close>

text \<open>\<^verbatim>\<open>d.get(key, default)\<close> on an optional field.\<close>

definition get_or :: "'a option \<Rightarrow> 'a \<Rightarrow> 'a" where
  "get_or v dflt = (case v of None \<Rightarrow> dflt | Some x \<Rightarrow> x)"

text \<open>
  \<^verbatim>\<open>exercise.get("distance", 0) if exercise.get("distance") else dflt\<close>: the distance is
  used when it is truthy, that is present and not zero.
\<close>

definition distance_or :: "exercise \<Rightarrow> real \<Rightarrow> real" where
  "distance_or exercise dflt =
     (case ex_distance exercise of
        None \<Rightarrow> dflt
      | Some d \<Rightarrow> if d \<noteq> 0 then d else dflt)"

definition broad_result :: "exercise \<Rightarrow> SearchResult" where
  "broad_result exercise =
     (let metadata = get_or (ex_metadata exercise) Map.empty
      in \<lparr> content = get_or (ex_content exercise) [],
           relevance_score = 1 - distance_or exercise 0.5,
           source = ''chromadb'',
           exercise_type = get_or (metadata ''type'') ''general'',
           target_muscles = [get_or (metadata ''body_part'') []],
           difficulty = get_or (metadata ''level'') ''beginner'' \<rparr>)"

definition targeted_result :: "exercise \<Rightarrow> SearchResult" where
  "targeted_result exercise =
     (let metadata = get_or (ex_metadata exercise) Map.empty
      in \<lparr> content = get_or (ex_content exercise) [],
           relevance_score = 1 - distance_or exercise 0.6,
           source = ''chromadb_targeted'',
           exercise_type = get_or (metadata ''type'') ''targeted'',
           target_muscles = get_or (ex_muscle_groups exercise) [],
           difficulty = get_or (ex_difficulty exercise) ''intermediate'' \<rparr>)"

definition multi_angle_result :: "string \<Rightarrow> exercise \<Rightarrow> SearchResult" where
  "multi_angle_result angle exercise =
     (let metadata = get_or (ex_metadata exercise) Map.empty
      in \<lparr> content = get_or (ex_content exercise) [],
           relevance_score = 1 - distance_or exercise 0.55,
           source = ''chromadb_angle_'' @ replace '' '' ''_'' angle,
           exercise_type = get_or (metadata ''type'') ''multi_angle'',
           target_muscles = [get_or (metadata ''body_part'') []],
           difficulty = get_or (metadata ''level'') ''varied'' \<rparr>)"

text \<open>
  The loop \<^verbatim>\<open>for term in terms: try: ... except Exception: log\<close> shared by the broad and
  the multi-angle search: one search per term with \<^verbatim>\<open>top_k=5\<close>, the first two hits kept,
  a raising search skipped.
\<close>

fun search_each ::
    "'s search_capability \<Rightarrow> (string \<Rightarrow> exercise \<Rightarrow> SearchResult) \<Rightarrow> string list \<Rightarrow>
     's \<Rightarrow> SearchResult list \<Rightarrow> 's \<times> SearchResult list" where
  "search_each search mk [] st results = (st, results)"
| "search_each search mk (term # terms) st results =
     (case search st term 5 of
        (st', Inl e) \<Rightarrow> search_each search mk terms st' results
      | (st', Inr exercises) \<Rightarrow>
          search_each search mk terms st' (results @ map (mk term) (take 2 exercises)))"

definition search_terms :: "string \<Rightarrow> string list" where
  "search_terms goal =
     (if goal = ''weight_loss'' then [''cardio'', ''fat burning'', ''HIIT'', ''weight loss exercises'']
      else if goal = ''muscle_gain'' then [''strength training'', ''muscle building'', ''hypertrophy'', ''resistance'']
      else if goal = ''cardio'' then [''endurance'', ''cardiovascular'', ''aerobic'', ''cardio training'']
      else if goal = ''strength'' then [''strength'', ''powerlifting'', ''resistance training'', ''strong'']
      else [''fitness'', ''exercise'', ''workout'', ''training''])"

definition angle_searches :: "string \<Rightarrow> string list" where
  "angle_searches goal =
     (if goal = ''weight_loss'' then [''beginner weight loss'', ''advanced fat burning'', ''cardio for weight loss'']
      else if goal = ''muscle_gain'' then [''beginner muscle building'', ''advanced hypertrophy'', ''strength for muscle'']
      else if goal = ''cardio'' then [''running cardio'', ''HIIT cardio'', ''low intensity cardio'']
      else if goal = ''strength'' then [''powerlifting'', ''bodyweight strength'', ''dumbbell strength'']
      else [''beginner fitness'', ''intermediate fitness'', ''advanced fitness''])"

definition execute_broad_search ::
    "'s search_capability \<Rightarrow> 's \<Rightarrow> AgentPlan \<Rightarrow> 's \<times> SearchResult list" where
  "execute_broad_search search st plan =
     search_each search (\<lambda>term. broad_result) (search_terms (primary_goal plan)) st []"

definition sub_goal_search_term :: "string \<Rightarrow> string" where
  "sub_goal_search_term current_sub_goal =
     replace ''_'' '' ''
       (replace ''discover_'' []
         (replace ''locate_'' []
           (replace ''identify_'' []
             (replace ''find_'' [] current_sub_goal))))"

definition execute_targeted_search ::
    "'s search_capability \<Rightarrow> 's \<Rightarrow> AgentPlan \<Rightarrow> nat \<Rightarrow> 's \<times> SearchResult list" where
  "execute_targeted_search search st plan iteration =
     (if iteration < length (sub_goals plan) then
        (let current_sub_goal = sub_goals plan ! iteration;
             search_term = sub_goal_search_term current_sub_goal
         in case search st search_term 5 of
              (st', Inl e) \<Rightarrow> (st', [])
            | (st', Inr exercises) \<Rightarrow> (st', map targeted_result (take 3 exercises)))
      else (st, []))"

definition execute_progressive_refinement ::
    "'s search_capability \<Rightarrow> 's \<Rightarrow> AgentPlan \<Rightarrow> 's \<times> SearchResult list" where
  "execute_progressive_refinement search st plan = execute_targeted_search search st plan 0"

definition execute_multi_angle_search ::
    "'s search_capability \<Rightarrow> 's \<Rightarrow> AgentPlan \<Rightarrow> 's \<times> SearchResult list" where
  "execute_multi_angle_search search st plan =
     search_each search multi_angle_result (angle_searches (primary_goal plan)) st []"

fun execute_strategic_search ::
    "'s search_capability \<Rightarrow> 's \<Rightarrow> AgentStrategy \<Rightarrow> AgentPlan \<Rightarrow> nat \<Rightarrow>
     's \<times> SearchResult list" where
  "execute_strategic_search search st BROAD_SEARCH plan iteration =
     execute_broad_search search st plan"
| "execute_strategic_search search st TARGETED_SEARCH plan iteration =
     execute_targeted_search search st plan iteration"
| "execute_strategic_search search st PROGRESSIVE_REFINEMENT plan iteration =
     execute_progressive_refinement search st plan"
| "execute_strategic_search search st MULTI_ANGLE_APPROACH plan iteration =
     execute_multi_angle_search search st plan"

subsection \<open>Quality assessment, stopping policy, memory\<close>

definition assess_result_quality ::
    "SearchResult list \<Rightarrow> AgentPlan \<Rightarrow> SearchResult list \<Rightarrow> error + quality_assessment" where
  "assess_result_quality new_results plan all_results =
     (if new_results = [] then
        Inr \<lparr> overall_score = 0, relevance = 0, coverage = 0, diversity = 0,
              meets_criteria = None \<rparr>
      else if sub_goals plan = [] then Inl ZeroDivisionError
      else
        (let avg_relevance = sum_list (map relevance_score new_results) / real (length new_results);
             all_exercise_types = remdups (map exercise_type (all_results @ new_results));
             cov = min (real (length all_exercise_types) / real (length (sub_goals plan))) 1;
             all_muscles = remdups (concat (map target_muscles (all_results @ new_results)));
             all_difficulties = remdups (map difficulty (all_results @ new_results));
             dvs = min (real (length all_muscles + length all_difficulties) / 10) 1;
             overall = avg_relevance * 0.4 + cov * 0.3 + dvs * 0.3
         in Inr \<lparr> overall_score = overall, relevance = avg_relevance, coverage = cov,
                  diversity = dvs,
                  meets_criteria =
                    Some (overall \<ge> get_or (success_criteria plan ''relevance_threshold'') 0.7) \<rparr>))"

text \<open>\<^verbatim>\<open>quality_assessment.get("meets_criteria", False)\<close>.\<close>

definition get_meets_criteria :: "quality_assessment \<Rightarrow> bool" where
  "get_meets_criteria q = get_or (meets_criteria q) False"

definition should_stop_searching :: "int \<Rightarrow> quality_assessment \<Rightarrow> AgentPlan \<Rightarrow> nat \<Rightarrow> bool" where
  "should_stop_searching max_iterations q plan iteration =
     (if get_meets_criteria q then True
      else if int iteration \<ge> max_iterations - 1 then True
      else if overall_score q \<ge> 0.9 then True
      else False)"

definition update_agent_memory ::
    "agent_memory \<Rightarrow> AgentStrategy \<Rightarrow> SearchResult list \<Rightarrow> quality_assessment \<Rightarrow> agent_memory" where
  "update_agent_memory memory strategy results q =
     (let strategy_key = strategy_value strategy;
          entries = get_or (memory strategy_key) []
                    @ [\<lparr> quality_score = overall_score q, result_count = length results,
                         timestamp = ''current'' \<rparr>]
      in if length entries > 10
         then memory(strategy_key \<mapsto> drop (length entries - 10) entries)
         else memory(strategy_key \<mapsto> entries))"

subsection \<open>The main loop of generate\_recommendation\<close>

text \<open>
  The variables of the loop: \<open>search_results\<close>, \<open>current_strategy\<close>, the instance's
  \<open>successful_strategies\<close> and the state of the search capability. The field \<open>rounds\<close>
  is a log that the source does not keep: the \<open>iteration_results\<close> of every round that
  reached \<^verbatim>\<open>search_results.extend(iteration_results)\<close>, in order.
\<close>

record 's loop_state =
  search_results :: "SearchResult list"
  current_strategy :: "AgentStrategy option"
  successful_strategies :: agent_memory
  store :: 's
  rounds :: "SearchResult list list"

text \<open>
  \<^verbatim>\<open>for iteration in range(self.max_iterations): ...\<close> over the remaining iteration
  indices. The first component of the result is \<open>Some e\<close> when an exception \<open>e\<close>
  left the loop; the state is then the one reached when it was raised.
\<close>

fun agentic_loop ::
    "int \<Rightarrow> 's search_capability \<Rightarrow> AgentPlan \<Rightarrow> nat list \<Rightarrow> 's loop_state \<Rightarrow>
     error option \<times> 's loop_state" where
  "agentic_loop max_iterations search plan [] s = (None, s)"
| "agentic_loop max_iterations search plan (iteration # rest) s =
     (case select_optimal_strategy plan (search_results s) iteration of
        Inl e \<Rightarrow> (Some e, s)
      | Inr strategy \<Rightarrow>
          (case execute_strategic_search search (store s) strategy plan iteration of
             (st', iteration_results) \<Rightarrow>
               (case assess_result_quality iteration_results plan (search_results s) of
                  Inl e \<Rightarrow> (Some e, s\<lparr>current_strategy := Some strategy, store := st'\<rparr>)
                | Inr q \<Rightarrow>
                    (let s' = s\<lparr>search_results := search_results s @ iteration_results,
                                current_strategy := Some strategy,
                                store := st',
                                rounds := rounds s @ [iteration_results]\<rparr>
                     in if should_stop_searching max_iterations q plan iteration then (None, s')
                        else agentic_loop max_iterations search plan rest
                               (s'\<lparr>successful_strategies :=
                                     update_agent_memory (successful_strategies s') strategy
                                       iteration_results q\<rparr>)))))"

definition initial_state :: "'s \<Rightarrow> agent_memory \<Rightarrow> 's loop_state" where
  "initial_state st memory =
     \<lparr> search_results = [], current_strategy = None, successful_strategies = memory,
       store = st, rounds = [] \<rparr>"

definition run_agentic_loop ::
    "int \<Rightarrow> 's search_capability \<Rightarrow> 's \<Rightarrow> agent_memory \<Rightarrow> AgentPlan \<Rightarrow>
     error option \<times> 's loop_state" where
  "run_agentic_loop max_iterations search st memory plan =
     agentic_loop max_iterations search plan [0..<nat max_iterations] (initial_state st memory)"

subsection \<open>Reflection and the metadata of the payload\<close>

record reflection_insights =
  planning_effectiveness :: bool
  goal_achievement :: bool
  search_efficiency :: real
  strategy_adaptation :: bool

definition generate_reflection_insights :: "AgentPlan \<Rightarrow> SearchResult list \<Rightarrow> reflection_insights" where
  "generate_reflection_insights plan results =
     \<lparr> planning_effectiveness = (int (length results) \<le> expected_iterations plan),
       goal_achievement =
         (real (length (remdups (map exercise_type results))) \<ge> real (length (sub_goals plan)) * 0.7),
       search_efficiency =
         (if results \<noteq> [] then sum_list (map relevance_score results) / real (length results) else 0),
       strategy_adaptation = (length (remdups (map source results)) > 1) \<rparr>"

text \<open>
  The keys that \<^verbatim>\<open>generate_recommendation\<close> itself adds to the payload after the
  synthesis: \<^verbatim>\<open>agentic_insights\<close> (only in reflection mode), \<^verbatim>\<open>iterations_used\<close> and
  \<^verbatim>\<open>strategies_employed\<close>. The synthesis itself, which calls the external generation
  capability and formats text, is not modelled: it is taken to return its dictionary, and
  it does not change \<open>search_results\<close>. The plan, which the source derives from the user
  profile before the loop, is a parameter here.
\<close>

record agentic_payload =
  agentic_insights :: "reflection_insights option"
  iterations_used :: nat
  strategies_employed :: "string list"

definition agentic_metadata :: "bool \<Rightarrow> AgentPlan \<Rightarrow> 's loop_state \<Rightarrow> agentic_payload" where
  "agentic_metadata reflection_mode plan s =
     \<lparr> agentic_insights =
         (if reflection_mode then Some (generate_reflection_insights plan (search_results s))
          else None),
       iterations_used = length (search_results s),
       strategies_employed =
         (case current_strategy s of None \<Rightarrow> [] | Some c \<Rightarrow> [strategy_value c]) \<rparr>"

definition generate_recommendation ::
    "int \<Rightarrow> bool \<Rightarrow> 's search_capability \<Rightarrow> 's \<Rightarrow> agent_memory \<Rightarrow> AgentPlan \<Rightarrow>
     error + agentic_payload" where
  "generate_recommendation max_iterations reflection_mode search st memory plan =
     (case run_agentic_loop max_iterations search st memory plan of
        (Some e, s) \<Rightarrow> Inl e
      | (None, s) \<Rightarrow> Inr (agentic_metadata reflection_mode plan s))"

subsection \<open>Profile analysis: the fitness level\<close>

text \<open>
  The entry \<^verbatim>\<open>user_data.get('age', 30)\<close> as \<^verbatim>\<open>int(...)\<close> sees it: absent, a value that
  \<^verbatim>\<open>int\<close> converts to the given integer, or a value that \<^verbatim>\<open>int\<close> rejects.
\<close>

datatype age_field = AgeAbsent | AgeInt int | AgeInvalid

fun int_age :: "age_field \<Rightarrow> error + int" where
  "int_age AgeAbsent = Inr 30"
| "int_age (AgeInt n) = Inr n"
| "int_age AgeInvalid = Inl ValueError"

definition infer_fitness_level :: "age_field \<Rightarrow> string \<Rightarrow> error + string" where
  "infer_fitness_level user_age image_analysis =
     (case int_age user_age of
        Inl e \<Rightarrow> Inl e
      | Inr age \<Rightarrow>
          (let analysis_lower = lower image_analysis
           in if image_analysis \<noteq> [] \<and>
                 (contains analysis_lower ''advanced'' \<or> contains analysis_lower ''muscular''
                  \<or> contains analysis_lower ''athletic'')
              then Inr ''advanced''
              else if image_analysis \<noteq> [] \<and>
                 (contains analysis_lower ''beginner'' \<or> contains analysis_lower ''sedentary''
                  \<or> contains analysis_lower ''limited experience'')
              then Inr ''beginner''
              else if image_analysis \<noteq> [] \<and>
                 (contains analysis_lower ''intermediate'' \<or> contains analysis_lower ''moderate'')
              then Inr ''intermediate''
              else if age < 25 then Inr ''beginner_to_intermediate''
              else if age > 50 then Inr ''experienced_but_cautious''
              else Inr ''intermediate''))"

subsection \<open>Vocabulary of the properties\<close>

text \<open>
  A result is generic when its lower-cased exercise type has one of the four general
  terms as a contiguous block.
\<close>

definition is_generic_type :: "string \<Rightarrow> bool" where
  "is_generic_type t =
     (\<exists>g \<in> {''general'', ''basic'', ''beginner'', ''simple''}. sublist g (lower t))"

definition generic_count :: "SearchResult list \<Rightarrow> nat" where
  "generic_count results = length (filter (\<lambda>r. is_generic_type (exercise_type r)) results)"




text \<open>
  A sequence of \<^verbatim>\<open>_update_agent_memory\<close> calls on one controller instance, and the
  entry each call appends.
\<close>

type_synonym record_call = "AgentStrategy \<times> SearchResult list \<times> quality_assessment"

fun record_calls :: "agent_memory \<Rightarrow> record_call list \<Rightarrow> agent_memory" where
  "record_calls memory [] = memory"
| "record_calls memory ((strategy, results, q) # calls) =
     record_calls (update_agent_memory memory strategy results q) calls"

fun entry_of :: "record_call \<Rightarrow> memory_entry" where
  "entry_of (strategy, results, q) =
     \<lparr> quality_score = overall_score q, result_count = length results, timestamp = ''current'' \<rparr>"

definition entries_for :: "string \<Rightarrow> record_call list \<Rightarrow> memory_entry list" where
  "entries_for key calls = map entry_of (filter (\<lambda>c. strategy_value (fst c) = key) calls)"

definition last_n :: "nat \<Rightarrow> 'a list \<Rightarrow> 'a list" where
  "last_n n xs = drop (length xs - n) xs"


text \<open>A text mentions a list of keywords when its lower-cased form contains one of them.\<close>

definition mentions :: "string \<Rightarrow> string list \<Rightarrow> bool" where
  "mentions txt keywords = (\<exists>k \<in> set keywords. sublist k (lower txt))"

text \<open>
  The fitness-level rule read literally from the specification: four keywords, matched in
  the text as given, then the age bands.
\<close>

definition spec_infer_fitness_level :: "int \<Rightarrow> string \<Rightarrow> string" where
  "spec_infer_fitness_level age txt =
     (if sublist ''advanced'' txt \<or> sublist ''athletic'' txt then ''advanced''
      else if sublist ''beginner'' txt \<or> sublist ''sedentary'' txt then ''beginner''
      else if age < 25 then ''beginner_to_intermediate''
      else if age > 50 then ''experienced_but_cautious''
      else ''intermediate'')"

text \<open>The distance each strategy substitutes for a missing one.\<close>

definition default_distance :: "AgentStrategy \<Rightarrow> real" where
  "default_distance strategy =
     (case strategy of
        BROAD_SEARCH \<Rightarrow> 0.5
      | TARGETED_SEARCH \<Rightarrow> 0.6
      | PROGRESSIVE_REFINEMENT \<Rightarrow> 0.6
      | MULTI_ANGLE_APPROACH \<Rightarrow> 0.55)"

text \<open>
  A search capability that additionally records every call made to it (query and
  \<open>top_k\<close>), to count the searches a strategy issues.
\<close>

definition logged :: "'s search_capability \<Rightarrow> ((string \<times> nat) list \<times> 's) search_capability" where
  "logged search =
     (\<lambda>(issued, st) query top_k.
        case search st query top_k of
          (st', response) \<Rightarrow> ((issued @ [(query, top_k)], st'), response))"

text \<open>
  A search capability that additionally records every answer it gave (the query and the
  response), and the hits of those answers that a strategy keeps: the first \<open>k\<close> of
  every answer that did not raise, in the order of the calls.
\<close>

definition recording ::
    "'s search_capability \<Rightarrow> ((string \<times> (error + exercise list)) list \<times> 's) search_capability" where
  "recording search =
     (\<lambda>(answers, st) query top_k.
        case search st query top_k of
          (st', response) \<Rightarrow> ((answers @ [(query, response)], st'), response))"

definition hits_kept :: "AgentStrategy \<Rightarrow> nat" where
  "hits_kept strategy =
     (case strategy of
        BROAD_SEARCH \<Rightarrow> 2
      | TARGETED_SEARCH \<Rightarrow> 3
      | PROGRESSIVE_REFINEMENT \<Rightarrow> 3
      | MULTI_ANGLE_APPROACH \<Rightarrow> 2)"

definition kept_hits :: "nat \<Rightarrow> (string \<times> (error + exercise list)) list \<Rightarrow> exercise list" where
  "kept_hits k answers =
     concat (map (\<lambda>(query, response). case response of Inl e \<Rightarrow> [] | Inr hits \<Rightarrow> take k hits)
               answers)"

text \<open>
  The relevance score of a result against the hit it was built from: 1 minus the default
  distance when the hit has no distance, 1 minus the distance when the hit has a non-zero
  one, and in both cases within [0,1] when the distance is absent or lies in (0,1].
\<close>

definition scored_from :: "real \<Rightarrow> SearchResult \<Rightarrow> exercise \<Rightarrow> bool" where
  "scored_from dflt r e =
     (case ex_distance e of
        None \<Rightarrow> relevance_score r = 1 - dflt \<and> 0 \<le> relevance_score r \<and> relevance_score r \<le> 1
      | Some d \<Rightarrow> (d \<noteq> 0 \<longrightarrow> relevance_score r = 1 - d)
                  \<and> (0 < d \<and> d \<le> 1 \<longrightarrow> 0 \<le> relevance_score r \<and> relevance_score r \<le> 1))"

definition verb_prefixes :: "string list" where
  "verb_prefixes = [''find_'', ''identify_'', ''locate_'', ''discover_'']"

subsection \<open>Concrete inputs\<close>

text \<open>A result of a given exercise type and relevance score.\<close>

definition typed_result :: "string \<Rightarrow> real \<Rightarrow> SearchResult" where
  "typed_result t score =
     \<lparr> content = ''Push-up'', relevance_score = score, source = ''chromadb'',
       exercise_type = t, target_muscles = [''Chest''], difficulty = ''Beginner'' \<rparr>"

definition weight_loss_plan :: AgentPlan where
  "weight_loss_plan = create_strategic_plan 3 ''weight_loss'' (\<lambda>key. False)"

definition capitalised_result :: SearchResult where
  "capitalised_result =
     \<lparr> content = ''Push-up'', relevance_score = 0.9, source = ''chromadb'',
       exercise_type = ''General'', target_muscles = [''Chest''], difficulty = ''Beginner'' \<rparr>"

definition score_call :: "nat \<Rightarrow> record_call" where
  "score_call i =
     (TARGETED_SEARCH, [],
      \<lparr> overall_score = real i / 100, relevance = 0, coverage = 0, diversity = 0,
        meets_criteria = Some False \<rparr>)"


text \<open>A hit at a given distance, and a capability that answers every query with the same hits.\<close>

definition hit_at :: "real \<Rightarrow> exercise" where
  "hit_at d = \<lparr> ex_content = Some ''Burpee'', ex_metadata = Some [''type'' \<mapsto> ''Cardio''],
               ex_distance = Some d, ex_muscle_groups = None, ex_difficulty = None \<rparr>"

definition constant_search :: "exercise list \<Rightarrow> unit search_capability" where
  "constant_search hits st query top_k = (st, Inr (take top_k hits))"


definition general_plan :: AgentPlan where
  "general_plan = create_strategic_plan 3 ''general'' (\<lambda>key. False)"


text \<open>
  A hit without any field, a capability that answers only the query \<open>fitness\<close> (with
  two such hits), and one that answers every query with one such hit.
\<close>

definition bare_hit :: exercise where
  "bare_hit = \<lparr> ex_content = None, ex_metadata = None, ex_distance = None,
                ex_muscle_groups = None, ex_difficulty = None \<rparr>"

definition fitness_only_search :: "unit search_capability" where
  "fitness_only_search st query top_k =
     (st, Inr (if query = ''fitness'' then [bare_hit, bare_hit] else []))"

definition one_hit_search :: "unit search_capability" where
  "one_hit_search st query top_k = (st, Inr [bare_hit])"


section \<open>Verified properties\<close>

subsection \<open>Strings and binary64 thresholds\<close>

lemma contains_iff_sublist: "contains s sub \<longleftrightarrow> sublist sub s"
  by (induction s) (simp_all add: sublist_Cons_right)

lemma list_ex_general_terms:
  "list_ex (\<lambda>term. contains (lower t) term) general_terms \<longleftrightarrow> is_generic_type t"
  by (simp add: general_terms_def is_generic_type_def contains_iff_sublist)

lemmas float_eval = float_round_def binade_def pow2_def round_half_even_def Let_def compute_bitlen
  float_of_def max_float_def float_add_def float_sum_def float_mean_def













lemma results_lack_specificity_iff:
  "results_lack_specificity results \<longleftrightarrow>
     float_round (real (length results) * float_round 0.7) < real (generic_count results)"
  unfolding results_lack_specificity_def Let_def list_ex_general_terms generic_count_def ..


lemma sublist_eval [simp]:
  "sublist xs [] \<longleftrightarrow> xs = []"
  "sublist xs (y # ys) \<longleftrightarrow> prefix xs (y # ys) \<or> sublist xs ys"
  by (simp_all add: sublist_Cons_right)

lemma general_plan_simps [simp]:
  "primary_goal general_plan = ''general''"
  "sub_goals general_plan = [''find_foundational_exercises'', ''identify_balanced_routines'',
       ''locate_beginner_progressions'', ''discover_safety_guidelines'']"
  "search_strategies general_plan = [BROAD_SEARCH, PROGRESSIVE_REFINEMENT]"
  "expected_iterations general_plan = 3"
  "success_criteria general_plan = default_success_criteria"
  by (simp_all add: general_plan_def create_strategic_plan_def)

subsection \<open>Strategy selection (C3)\<close>





text \<open>
  At the thresholds the rounding decides: 63 generic results of 90 are exactly 70\%, and the
  targeted search is chosen; three scores of 0.4 have the binary64 mean
  0.4000000000000001, three scores of 0.7 the mean 0.6999999999999998, and the progressive
  refinement is chosen.
\<close>

lemma generic_count_replicate:
  "generic_count (replicate m (typed_result ''general'' x) @ replicate k (typed_result ''Strength'' y)) = m"
  by (simp add: generic_count_def typed_result_def is_generic_type_def lower_def lower_char_def)

lemma select_at_exactly_seventy_percent:
  "select_optimal_strategy weight_loss_plan
     (replicate 63 (typed_result ''general'' 0.9) @ replicate 27 (typed_result ''Strength'' 0.9)) 1
   = Inr TARGETED_SEARCH"
  by (simp add: select_optimal_strategy_def results_lack_specificity_iff generic_count_replicate
      float_eval)

lemma select_at_mean_of_three_0_4:
  "select_optimal_strategy weight_loss_plan
     [typed_result ''Strength'' 0.4, typed_result ''Strength'' 0.4, typed_result ''Strength'' 0.4] 1
   = Inr PROGRESSIVE_REFINEMENT"
  by (simp add: select_optimal_strategy_def results_lack_specificity_def general_terms_def
      results_need_refinement_def typed_result_def lower_def lower_char_def float_eval)

lemma select_at_mean_of_three_0_7:
  "select_optimal_strategy weight_loss_plan
     [typed_result ''Strength'' 0.7, typed_result ''Strength'' 0.7, typed_result ''Strength'' 0.7] 1
   = Inr PROGRESSIVE_REFINEMENT"
  by (simp add: select_optimal_strategy_def results_lack_specificity_def general_terms_def
      results_need_refinement_def typed_result_def lower_def lower_char_def float_eval)



subsection \<open>Stopping policy (C2)\<close>

text \<open>
  Claim C2. \<^verbatim>\<open>_should_stop_searching\<close> returns true if and only if the assessment's
  \<open>meets_criteria\<close> is true, or the iteration index is at least \<open>max_iterations - 1\<close>,
  or the overall score is at least 0.9; so an assessment with overall score 0.95 stops
  the loop at every iteration index and for every value of \<open>meets_criteria\<close>.
\<close>

theorem should_stop_searching_iff:
  "(should_stop_searching max_iterations q plan iteration \<longleftrightarrow>
      meets_criteria q = Some True \<or> int iteration \<ge> max_iterations - 1 \<or> overall_score q \<ge> 0.9)
   \<and> (overall_score q = 0.95 \<longrightarrow> should_stop_searching max_iterations q plan iteration)"
  by (cases "meets_criteria q") (auto simp: should_stop_searching_def get_meets_criteria_def get_or_def)

theorem should_stop_searching_iff_witness:
  "should_stop_searching 3
     \<lparr> overall_score = 0.95, relevance = 1, coverage = 1, diversity = 0.5,
       meets_criteria = Some False \<rparr>
     (create_strategic_plan 3 ''general'' (\<lambda>k. False)) 0"
  using should_stop_searching_iff
    [of 3 "\<lparr> overall_score = 0.95, relevance = 1, coverage = 1, diversity = 0.5,
             meets_criteria = Some False \<rparr>" "create_strategic_plan 3 ''general'' (\<lambda>k. False)" 0]
  by simp

subsection \<open>Quality of an empty round (C4)\<close>

text \<open>
  Claim C4. For every plan and every cumulative result set, \<^verbatim>\<open>_assess_result_quality\<close>
  on an empty list of new results returns the scores 0.0 for overall, relevance, coverage
  and diversity; the dictionary has no key \<open>meets_criteria\<close>, which its reader
  \<^verbatim>\<open>.get("meets_criteria", False)\<close> takes as false.
\<close>

theorem assess_result_quality_empty:
  "assess_result_quality [] plan all_results =
     Inr \<lparr> overall_score = 0, relevance = 0, coverage = 0, diversity = 0, meets_criteria = None \<rparr>
   \<and> (\<exists>q. assess_result_quality [] plan all_results = Inr q \<and> overall_score q = 0
          \<and> relevance q = 0 \<and> coverage q = 0 \<and> diversity q = 0 \<and> get_meets_criteria q = False)"
  by (simp add: assess_result_quality_def get_meets_criteria_def get_or_def)

theorem assess_result_quality_empty_witness:
  "overall_score (projr (assess_result_quality [] (create_strategic_plan 3 ''cardio'' (\<lambda>k. False))
      [capitalised_result])) = 0"
  using assess_result_quality_empty
    [of "create_strategic_plan 3 ''cardio'' (\<lambda>k. False)" "[capitalised_result]"]
  by simp

subsection \<open>Agent memory (C7)\<close>

lemma last_n_last_n_append: "last_n n (last_n n xs @ ys) = last_n n (xs @ ys)"
  by (cases "length xs \<le> n") (auto simp: last_n_def add.commute)

lemma update_agent_memory_apply:
  "update_agent_memory memory strategy results q key =
     (if key = strategy_value strategy
      then Some (last_n 10 (get_or (memory key) [] @ [entry_of (strategy, results, q)]))
      else memory key)"
  by (simp add: update_agent_memory_def Let_def last_n_def)

lemma entries_for_Cons:
  "entries_for key (c # calls) =
     (if strategy_value (fst c) = key then entry_of c # entries_for key calls
      else entries_for key calls)"
  by (simp add: entries_for_def)

lemma record_calls_apply:
  "record_calls memory calls key =
     (if entries_for key calls = [] then memory key
      else Some (last_n 10 (get_or (memory key) [] @ entries_for key calls)))"
proof (induction calls arbitrary: memory)
  case Nil
  then show ?case by (simp add: entries_for_def)
next
  case (Cons c calls)
  obtain strategy results q where c: "c = (strategy, results, q)"
    by (cases c) auto
  define memory' where "memory' = update_agent_memory memory strategy results q"
  have step: "record_calls memory (c # calls) key = record_calls memory' calls key"
    by (simp add: c memory'_def)
  have ih: "record_calls memory' calls key =
     (if entries_for key calls = [] then memory' key
      else Some (last_n 10 (get_or (memory' key) [] @ entries_for key calls)))"
    by (rule Cons.IH)
  show ?case
  proof (cases "key = strategy_value strategy")
    case True
    have upd: "memory' key = Some (last_n 10 (get_or (memory key) [] @ [entry_of c]))"
      by (simp add: memory'_def update_agent_memory_apply True c)
    have ent: "entries_for key (c # calls) = entry_of c # entries_for key calls"
      by (simp add: entries_for_Cons True c)
    have "last_n 10 (last_n 10 (get_or (memory key) [] @ [entry_of c]) @ entries_for key calls)
          = last_n 10 (get_or (memory key) [] @ entry_of c # entries_for key calls)"
      using last_n_last_n_append [of 10 "get_or (memory key) [] @ [entry_of c]" "entries_for key calls"]
      by simp
    then show ?thesis
      unfolding step ih upd ent by (simp add: get_or_def)
  next
    case False
    have upd: "memory' key = memory key"
      by (simp add: memory'_def update_agent_memory_apply False)
    have ent: "entries_for key (c # calls) = entries_for key calls"
      using False by (simp add: entries_for_Cons c)
    show ?thesis
      unfolding step ih upd ent ..
  qed
qed

text \<open>
  Claim C7. After any sequence of \<^verbatim>\<open>_update_agent_memory\<close> calls on a fresh
  controller, every strategy key holds at most 10 entries, and they are exactly the 10
  most recently recorded entries of that key, in insertion order (all of them when fewer
  than 10 were recorded; no key when none was). After 15 calls for one key the entries
  6 to 15 remain.
\<close>

theorem agent_memory_bounded_fifo:
  "record_calls Map.empty calls key =
     (if entries_for key calls = [] then None else Some (last_n 10 (entries_for key calls)))
   \<and> length (get_or (record_calls Map.empty calls key) []) \<le> 10"
proof -
  have eq: "record_calls Map.empty calls key =
     (if entries_for key calls = [] then None else Some (last_n 10 (entries_for key calls)))"
    by (simp add: record_calls_apply get_or_def)
  have "length (last_n 10 (entries_for key calls)) \<le> 10"
    by (simp add: last_n_def)
  then show ?thesis
    using eq by (simp add: get_or_def)
qed

theorem agent_memory_bounded_fifo_witness:
  "record_calls Map.empty (map score_call [1..<16]) ''targeted_search'' =
     Some (map (\<lambda>i. entry_of (score_call i)) [6..<16])"
proof -
  have up: "[1..<16] = [1,2,3,4,5,6,7,8,9,10,11,12,13,14,15::nat]" "[6..<16] = [6,7,8,9,10,11,12,13,14,15::nat]"
    by (simp_all add: upt_conv_Cons)
  show ?thesis
    using agent_memory_bounded_fifo [of "map score_call [1..<16]" "''targeted_search''"]
    unfolding up by (simp add: entries_for_def score_call_def last_n_def)
qed

subsection \<open>Fitness level (C9)\<close>

lemma mentions_eval:
  "mentions txt keywords \<longleftrightarrow> list_ex (\<lambda>k. contains (lower txt) k) keywords"
  by (simp add: mentions_def contains_iff_sublist list_ex_iff)

lemma mentions_empty_text: "[] \<notin> set keywords \<Longrightarrow> \<not> mentions [] keywords"
  by (auto simp: mentions_def lower_def)

text \<open>
  Claim C9, amended. When the age converts to an integer (30 when it is absent),
  \<^verbatim>\<open>_infer_fitness_level\<close> returns, by first match on the lower-cased visual-analysis
  text: \<open>advanced\<close> when it contains advanced, muscular or athletic; \<open>beginner\<close> when it
  contains beginner, sedentary or limited experience; \<open>intermediate\<close> when it contains
  intermediate or moderate; otherwise (also for the empty text) the age band:
  \<open>beginner_to_intermediate\<close> below 25, \<open>experienced_but_cautious\<close> above 50,
  \<open>intermediate\<close> otherwise. An age that \<^verbatim>\<open>int\<close> rejects raises.
\<close>

theorem infer_fitness_level_rule:
  "infer_fitness_level user_age txt =
     (case int_age user_age of
        Inl e \<Rightarrow> Inl e
      | Inr age \<Rightarrow>
          Inr (if mentions txt [''advanced'', ''muscular'', ''athletic''] then ''advanced''
               else if mentions txt [''beginner'', ''sedentary'', ''limited experience''] then ''beginner''
               else if mentions txt [''intermediate'', ''moderate''] then ''intermediate''
               else if age < 25 then ''beginner_to_intermediate''
               else if age > 50 then ''experienced_but_cautious''
               else ''intermediate''))"
proof (cases "txt = []")
  case True
  then show ?thesis
    by (simp add: infer_fitness_level_def mentions_def lower_def split: sum.splits)
next
  case False
  then show ?thesis
    by (simp add: infer_fitness_level_def mentions_eval Let_def split: sum.splits)
qed

theorem infer_fitness_level_rule_witness:
  "infer_fitness_level AgeAbsent ''Athletic build, good posture'' = Inr ''advanced''
   \<and> infer_fitness_level (AgeInt 61) ''No clear cues'' = Inr ''experienced_but_cautious''"
  using infer_fitness_level_rule [of AgeAbsent "''Athletic build, good posture''"]
    infer_fitness_level_rule [of "AgeInt 61" "''No clear cues''"]
  by (simp add: mentions_def lower_def lower_char_def)

text \<open>
  The claim as written knows four keywords only: for a user of 20 whose analysis says
  \<open>muscular build\<close> it gives the age band, the code gives \<open>advanced\<close>.
\<close>

theorem infer_fitness_level_counterexample:
  "infer_fitness_level (AgeInt 20) ''muscular build'' = Inr ''advanced''
   \<and> spec_infer_fitness_level 20 ''muscular build'' = ''beginner_to_intermediate''"
  by (simp add: infer_fitness_level_def spec_infer_fitness_level_def lower_def lower_char_def)

subsection \<open>Relevance scores (C6)\<close>

lemma recording_call:
  "recording search (answers, st) query top_k =
     ((answers @ [(query, snd (search st query top_k))], fst (search st query top_k)),
      snd (search st query top_k))"
  by (simp add: recording_def split: prod.splits)

lemma relevance_of_results [simp]:
  "relevance_score (broad_result e) = 1 - distance_or e 0.5"
  "relevance_score (targeted_result e) = 1 - distance_or e 0.6"
  "relevance_score (multi_angle_result angle e) = 1 - distance_or e 0.55"
  by (simp_all add: broad_result_def targeted_result_def multi_angle_result_def Let_def)

lemma scored_from_distance_or:
  "0 \<le> dflt \<Longrightarrow> dflt \<le> 1 \<Longrightarrow> relevance_score r = 1 - distance_or e dflt \<Longrightarrow>
     scored_from dflt r e"
  by (auto simp: scored_from_def distance_or_def split: option.splits)

lemma scored_from_map:
  assumes "\<And>e. relevance_score (f e) = 1 - distance_or e dflt" and "0 \<le> dflt" "dflt \<le> 1"
  shows "list_all2 (scored_from dflt) (map f hits) hits"
  by (simp add: list_all2_map1 list_all2_same assms scored_from_distance_or)

lemma search_each_recording:
  assumes mk: "\<And>query e. relevance_score (mk query e) = 1 - distance_or e dflt"
    and dflt: "0 \<le> dflt" "dflt \<le> 1"
  shows "\<exists>new built.
      search_each (recording search) mk terms (answers, st) results
        = ((answers @ new, fst (search_each search mk terms st results)), results @ built)
      \<and> snd (search_each search mk terms st results) = results @ built
      \<and> list_all2 (scored_from dflt) built (kept_hits 2 new)"
proof (induction terms arbitrary: answers st results)
  case Nil
  show ?case by (simp add: kept_hits_def)
next
  case (Cons t terms)
  obtain st' response where resp: "search st t 5 = (st', response)"
    by (cases "search st t 5") auto
  show ?case
  proof (cases response)
    case (Inl e)
    from Cons.IH [of "answers @ [(t, response)]" st' results]
    obtain new built where ih:
      "search_each (recording search) mk terms (answers @ [(t, response)], st') results
        = (((answers @ [(t, response)]) @ new, fst (search_each search mk terms st' results)),
           results @ built)"
      "snd (search_each search mk terms st' results) = results @ built"
      "list_all2 (scored_from dflt) built (kept_hits 2 new)"
      by blast
    have "search_each (recording search) mk (t # terms) (answers, st) results
        = ((answers @ ((t, response) # new), fst (search_each search mk (t # terms) st results)),
           results @ built)"
      using resp Inl ih(1) by (simp add: recording_call)
    moreover have "snd (search_each search mk (t # terms) st results) = results @ built"
      using resp Inl ih(2) by simp
    moreover have "list_all2 (scored_from dflt) built (kept_hits 2 ((t, response) # new))"
      using Inl ih(3) by (simp add: kept_hits_def)
    ultimately show ?thesis by blast
  next
    case (Inr hits)
    let ?results' = "results @ map (mk t) (take 2 hits)"
    from Cons.IH [of "answers @ [(t, response)]" st' ?results']
    obtain new built where ih:
      "search_each (recording search) mk terms (answers @ [(t, response)], st') ?results'
        = (((answers @ [(t, response)]) @ new, fst (search_each search mk terms st' ?results')),
           ?results' @ built)"
      "snd (search_each search mk terms st' ?results') = ?results' @ built"
      "list_all2 (scored_from dflt) built (kept_hits 2 new)"
      by blast
    have "search_each (recording search) mk (t # terms) (answers, st) results
        = ((answers @ ((t, response) # new), fst (search_each search mk (t # terms) st results)),
           results @ (map (mk t) (take 2 hits) @ built))"
      using resp Inr ih(1) by (simp add: recording_call)
    moreover have "snd (search_each search mk (t # terms) st results)
        = results @ (map (mk t) (take 2 hits) @ built)"
      using resp Inr ih(2) by simp
    moreover have "list_all2 (scored_from dflt) (map (mk t) (take 2 hits) @ built)
        (kept_hits 2 ((t, response) # new))"
      using Inr ih(3) scored_from_map [of "mk t" dflt "take 2 hits"] mk dflt
      by (simp add: kept_hits_def list_all2_appendI)
    ultimately show ?thesis by blast
  qed
qed

lemma search_each_scored:
  assumes mk: "\<And>query e. relevance_score (mk query e) = 1 - distance_or e dflt"
    and dflt: "0 \<le> dflt" "dflt \<le> 1"
  shows "snd (search_each (recording search) mk terms ([], st) [])
           = snd (search_each search mk terms st [])
     \<and> list_all2 (scored_from dflt) (snd (search_each search mk terms st []))
          (kept_hits 2 (fst (fst (search_each (recording search) mk terms ([], st) []))))"
proof -
  from search_each_recording [of mk dflt search terms "[]" st "[]", OF mk dflt]
  obtain new built where
    "search_each (recording search) mk terms ([], st) []
        = (([] @ new, fst (search_each search mk terms st [])), [] @ built)"
    "snd (search_each search mk terms st []) = [] @ built"
    "list_all2 (scored_from dflt) built (kept_hits 2 new)"
    by blast
  then show ?thesis by simp
qed

lemma targeted_scored:
  "snd (execute_targeted_search (recording search) ([], st) plan iteration)
     = snd (execute_targeted_search search st plan iteration)
   \<and> list_all2 (scored_from 0.6) (snd (execute_targeted_search search st plan iteration))
        (kept_hits 3 (fst (fst (execute_targeted_search (recording search) ([], st) plan iteration))))"
proof (cases "iteration < length (sub_goals plan)")
  case False
  then show ?thesis by (simp add: execute_targeted_search_def kept_hits_def)
next
  case True
  define query where "query = sub_goal_search_term (sub_goals plan ! iteration)"
  obtain st' response where resp: "search st query 5 = (st', response)"
    by (cases "search st query 5") auto
  show ?thesis
  proof (cases response)
    case (Inl e)
    with True resp show ?thesis
      by (simp add: execute_targeted_search_def recording_call kept_hits_def query_def)
  next
    case (Inr hits)
    have "list_all2 (scored_from 0.6) (map targeted_result (take 3 hits)) (take 3 hits)"
      by (rule scored_from_map) simp_all
    with True resp Inr show ?thesis
      by (simp add: execute_targeted_search_def recording_call kept_hits_def query_def)
  qed
qed

text \<open>
  Claim C6, amended. Every strategy returns one SearchResult for each hit it keeps of the
  answers the search capability gave during the execution (the first 2 hits of every
  answer for the broad and the multi-angle search, the first 3 for the targeted search and
  the progressive refinement), in the same order, and the relevance score of each result
  is 1 minus the distance of its own hit when that distance is non-zero, and 1 minus the
  strategy's default distance (0.5 broad, 0.6 targeted and progressive, 0.55 multi-angle)
  when the hit has no distance; the score lies in [0,1] when the distance is absent or
  lies in (0,1]. Nothing bounds the score for a distance above 1.
\<close>

theorem relevance_score_from_distance:
  "snd (execute_strategic_search (recording search) ([], st) strategy plan iteration)
     = snd (execute_strategic_search search st strategy plan iteration)
   \<and> list_all2 (scored_from (default_distance strategy))
        (snd (execute_strategic_search search st strategy plan iteration))
        (kept_hits (hits_kept strategy)
           (fst (fst (execute_strategic_search (recording search) ([], st) strategy plan iteration))))"
proof (cases strategy)
  case BROAD_SEARCH
  then show ?thesis
    using search_each_scored [of "\<lambda>term. broad_result" "0.5" search
        "search_terms (primary_goal plan)" st]
    by (simp add: execute_broad_search_def default_distance_def hits_kept_def)
next
  case TARGETED_SEARCH
  then show ?thesis
    using targeted_scored [of search st plan iteration]
    by (simp add: default_distance_def hits_kept_def)
next
  case PROGRESSIVE_REFINEMENT
  then show ?thesis
    using targeted_scored [of search st plan 0]
    by (simp add: execute_progressive_refinement_def default_distance_def hits_kept_def)
next
  case MULTI_ANGLE_APPROACH
  then show ?thesis
    using search_each_scored [of multi_angle_result "0.55" search
        "angle_searches (primary_goal plan)" st]
    by (simp add: execute_multi_angle_search_def default_distance_def hits_kept_def)
qed

theorem relevance_score_from_distance_witness:
  "kept_hits 3 (fst (fst (execute_strategic_search
       (recording (constant_search [hit_at 0.25, hit_at 1, bare_hit, hit_at 0.5])) ([], ())
       TARGETED_SEARCH general_plan 1)))
     = [hit_at 0.25, hit_at 1, bare_hit]
   \<and> map relevance_score (snd (execute_strategic_search
       (constant_search [hit_at 0.25, hit_at 1, bare_hit, hit_at 0.5]) ()
       TARGETED_SEARCH general_plan 1))
     = [0.75, 0, 0.4]"
  using relevance_score_from_distance
    [of "constant_search [hit_at 0.25, hit_at 1, bare_hit, hit_at 0.5]" "()"
        TARGETED_SEARCH general_plan 1]
  by (simp add: execute_targeted_search_def recording_call constant_search_def kept_hits_def
      hits_kept_def general_plan_def create_strategic_plan_def scored_from_def
      default_distance_def hit_at_def bare_hit_def numeral_3_eq_3 list_all2_Cons2)

text \<open>A hit at distance 1.5 yields the relevance score -0.5, outside [0,1].\<close>

theorem relevance_score_range_counterexample:
  "map relevance_score
     (snd (execute_strategic_search (constant_search [hit_at 1.5]) () TARGETED_SEARCH general_plan 1))
   = [- 1 / 2]"
  by (simp add: execute_targeted_search_def constant_search_def hit_at_def distance_or_def)

subsection \<open>Targeted search (C5)\<close>

lemma replace_absent: "\<not> sublist old s \<Longrightarrow> replace old new s = s"
proof (induction old new s rule: replace.induct)
  case (1 old new)
  then show ?case by simp
next
  case (2 old new c cs)
  from "2.prems" have np: "\<not> prefix old (c # cs)" and ns: "\<not> sublist old cs"
    by (simp_all add: sublist_Cons_right)
  with "2.IH"(2) show ?case by simp
qed

lemma replace_at_head: "old \<noteq> [] \<Longrightarrow> replace old new (old @ s) = new @ replace old new s"
  by (cases old) simp_all

text \<open>
  For a sub-goal that starts with one of the four verb prefixes and has no further
  occurrence of any of them, the query is the rest of the sub-goal with spaces for
  underscores.
\<close>

lemma sub_goal_search_term_strips_prefix:
  assumes p: "p \<in> set verb_prefixes"
    and rest: "\<forall>v \<in> set verb_prefixes. \<not> sublist v rest"
  shows "sub_goal_search_term (p @ rest) = replace ''_'' '' '' rest"
proof -
  from rest have r: "\<not> sublist ''find_'' rest" "\<not> sublist ''identify_'' rest"
    "\<not> sublist ''locate_'' rest" "\<not> sublist ''discover_'' rest"
    by (simp_all add: verb_prefixes_def)
  have keep: "replace ''find_'' [] rest = rest" "replace ''identify_'' [] rest = rest"
    "replace ''locate_'' [] rest = rest" "replace ''discover_'' [] rest = rest"
    using r by (simp_all add: replace_absent)
  from p consider "p = ''find_''" | "p = ''identify_''" | "p = ''locate_''" | "p = ''discover_''"
    by (auto simp: verb_prefixes_def)
  then show ?thesis
  proof cases
    case 1
    have "replace ''find_'' [] (''find_'' @ rest) = rest"
      using replace_at_head [of "''find_''" "[]" rest] keep by simp
    then show ?thesis
      unfolding sub_goal_search_term_def 1 by (simp only: keep)
  next
    case 2
    have a: "replace ''find_'' [] (''identify_'' @ rest) = ''identify_'' @ rest"
      using r(1) by (intro replace_absent) (simp add: sublist_Cons_right)
    have "replace ''identify_'' [] (''identify_'' @ rest) = rest"
      using replace_at_head [of "''identify_''" "[]" rest] keep by simp
    then show ?thesis
      unfolding sub_goal_search_term_def 2 a by (simp only: keep)
  next
    case 3
    have a: "replace ''find_'' [] (''locate_'' @ rest) = ''locate_'' @ rest"
      using r(1) by (intro replace_absent) (simp add: sublist_Cons_right)
    have b: "replace ''identify_'' [] (''locate_'' @ rest) = ''locate_'' @ rest"
      using r(2) by (intro replace_absent) (simp add: sublist_Cons_right)
    have "replace ''locate_'' [] (''locate_'' @ rest) = rest"
      using replace_at_head [of "''locate_''" "[]" rest] keep by simp
    then show ?thesis
      unfolding sub_goal_search_term_def 3 a b by (simp only: keep)
  next
    case 4
    have a: "replace ''find_'' [] (''discover_'' @ rest) = ''discover_'' @ rest"
      using r(1) by (intro replace_absent) (simp add: sublist_Cons_right)
    have b: "replace ''identify_'' [] (''discover_'' @ rest) = ''discover_'' @ rest"
      using r(2) by (intro replace_absent) (simp add: sublist_Cons_right)
    have c: "replace ''locate_'' [] (''discover_'' @ rest) = ''discover_'' @ rest"
      using r(3) by (intro replace_absent) (simp add: sublist_Cons_right)
    have "replace ''discover_'' [] (''discover_'' @ rest) = rest"
      using replace_at_head [of "''discover_''" "[]" rest] keep by simp
    then show ?thesis
      unfolding sub_goal_search_term_def 4 a b c by (simp only: keep)
  qed
qed

lemma logged_call:
  "logged search (issued, st) query top_k =
     ((issued @ [(query, top_k)], fst (search st query top_k)), snd (search st query top_k))"
  by (simp add: logged_def split: prod.splits)

text \<open>
  Claim C5, amended. When \<open>iteration\<close> is an index of \<open>plan.sub_goals\<close>,
  \<^verbatim>\<open>_execute_targeted_search\<close> issues exactly one search, with \<open>top_k = 5\<close> and with the
  query obtained from the sub-goal at that index by deleting every occurrence of find\_,
  identify\_, locate\_ and discover\_ (in this order) and then replacing underscores with
  spaces, and it returns the results built from the first 3 hits (none when the search
  raises). When \<open>iteration\<close> is out of range it issues no search and returns no result.
  In both cases at most 3 results are returned.
\<close>

theorem execute_targeted_search_rule:
  "fst (fst (execute_targeted_search (logged search) (issued, st) plan iteration)) =
     issued @ (if iteration < length (sub_goals plan)
            then [(sub_goal_search_term (sub_goals plan ! iteration), 5)] else [])
   \<and> snd (execute_targeted_search search st plan iteration) =
     (if iteration < length (sub_goals plan)
      then (case snd (search st (sub_goal_search_term (sub_goals plan ! iteration)) 5) of
              Inl e \<Rightarrow> []
            | Inr hits \<Rightarrow> map targeted_result (take 3 hits))
      else [])
   \<and> length (snd (execute_targeted_search search st plan iteration)) \<le> 3"
proof -
  have log_eq: "fst (fst (execute_targeted_search (logged search) (issued, st) plan iteration)) =
     issued @ (if iteration < length (sub_goals plan)
            then [(sub_goal_search_term (sub_goals plan ! iteration), 5)] else [])"
    by (simp add: execute_targeted_search_def logged_call Let_def split: prod.splits sum.splits)
  have res_eq: "snd (execute_targeted_search search st plan iteration) =
     (if iteration < length (sub_goals plan)
      then (case snd (search st (sub_goal_search_term (sub_goals plan ! iteration)) 5) of
              Inl e \<Rightarrow> []
            | Inr hits \<Rightarrow> map targeted_result (take 3 hits))
      else [])"
    by (simp add: execute_targeted_search_def Let_def split: prod.splits sum.splits)
  have "length (snd (execute_targeted_search search st plan iteration)) \<le> 3"
    unfolding res_eq by (simp split: sum.splits)
  with log_eq res_eq show ?thesis by simp
qed

theorem execute_targeted_search_rule_witness:
  "fst (fst (execute_targeted_search (logged (constant_search [hit_at 0.25, hit_at 0.5, hit_at 0.75, hit_at 1]))
       ([], ()) general_plan 2)) = [(''beginner progressions'', 5)]
   \<and> map relevance_score (snd (execute_targeted_search
        (constant_search [hit_at 0.25, hit_at 0.5, hit_at 0.75, hit_at 1]) () general_plan 2))
       = [0.75, 0.5, 0.25]"
  using execute_targeted_search_rule
    [of "constant_search [hit_at 0.25, hit_at 0.5, hit_at 0.75, hit_at 1]" "[]" "()" general_plan 2]
  by (simp add: sub_goal_search_term_def constant_search_def hit_at_def distance_or_def
      numeral_3_eq_3)

text \<open>
  With four sub-goals and iteration 4 no search is issued and nothing is returned, although
  a search for the sub-goal at index 0 would have found a hit.
\<close>

theorem execute_targeted_search_out_of_range_counterexample:
  "execute_targeted_search (logged (constant_search [hit_at 0.25])) ([], ()) general_plan 4
     = (([], ()), [])
   \<and> execute_targeted_search (logged (constant_search [hit_at 0.25])) ([], ()) general_plan 0
     = (([(''foundational exercises'', 5)], ()), [targeted_result (hit_at 0.25)])"
  by (simp add: execute_targeted_search_def logged_call constant_search_def sub_goal_search_term_def)

subsection \<open>The main loop (C1)\<close>

lemma agentic_loop_appends:
  "agentic_loop max_iterations search plan its s = (err, s') \<Longrightarrow>
     \<exists>new. rounds s' = rounds s @ new \<and> search_results s' = search_results s @ concat new
        \<and> length new + (case err of None \<Rightarrow> 0 | Some e \<Rightarrow> 1) \<le> length its"
proof (induction its arbitrary: s)
  case Nil
  then show ?case by auto
next
  case (Cons iteration rest)
  show ?case
  proof (cases "select_optimal_strategy plan (search_results s) iteration")
    case (Inl e)
    with Cons.prems show ?thesis by auto
  next
    case (Inr strategy)
    obtain st' iteration_results
      where ex: "execute_strategic_search search (store s) strategy plan iteration = (st', iteration_results)"
      by (cases "execute_strategic_search search (store s) strategy plan iteration") auto
    show ?thesis
    proof (cases "assess_result_quality iteration_results plan (search_results s)")
      case (Inl e)
      with Cons.prems Inr ex show ?thesis by auto
    next
      case q: (Inr q)
      define s1 where "s1 = s\<lparr>search_results := search_results s @ iteration_results,
                                current_strategy := Some strategy,
                                store := st',
                                rounds := rounds s @ [iteration_results]\<rparr>"
      show ?thesis
      proof (cases "should_stop_searching max_iterations q plan iteration")
        case True
        with Cons.prems Inr ex q have "err = None" "s' = s1"
          by (simp_all add: s1_def)
        then have "rounds s' = rounds s @ [iteration_results] \<and>
          search_results s' = search_results s @ concat [iteration_results] \<and>
          length [iteration_results] + (case err of None \<Rightarrow> 0 | Some e \<Rightarrow> 1) \<le> length (iteration # rest)"
          by (simp add: s1_def)
        then show ?thesis by blast
      next
        case False
        define s2 where "s2 = s1\<lparr>successful_strategies :=
                              update_agent_memory (successful_strategies s1) strategy iteration_results q\<rparr>"
        from False Cons.prems Inr ex q
        have "agentic_loop max_iterations search plan rest s2 = (err, s')"
          by (simp add: s1_def s2_def Let_def)
        from Cons.IH [OF this] obtain new where new: "rounds s' = rounds s2 @ new"
          "search_results s' = search_results s2 @ concat new"
          "length new + (case err of None \<Rightarrow> 0 | Some e \<Rightarrow> 1) \<le> length rest"
          by blast
        then have "rounds s' = rounds s @ (iteration_results # new) \<and>
          search_results s' = search_results s @ concat (iteration_results # new) \<and>
          length (iteration_results # new) + (case err of None \<Rightarrow> 0 | Some e \<Rightarrow> 1)
            \<le> length (iteration # rest)"
          by (simp add: s1_def s2_def)
        then show ?thesis by blast
      qed
    qed
  qed
qed

lemma select_optimal_strategy_returns:
  "search_strategies plan \<noteq> [] \<Longrightarrow>
     \<exists>strategy. select_optimal_strategy plan results iteration = Inr strategy"
  by (simp add: select_optimal_strategy_def)

lemma assess_result_quality_returns:
  "sub_goals plan \<noteq> [] \<Longrightarrow> \<exists>q. assess_result_quality new_results plan all_results = Inr q"
  by (simp add: assess_result_quality_def Let_def)

lemma agentic_loop_no_raise:
  "sub_goals plan \<noteq> [] \<Longrightarrow> search_strategies plan \<noteq> [] \<Longrightarrow>
     fst (agentic_loop max_iterations search plan its s) = None"
proof (induction its arbitrary: s)
  case Nil
  then show ?case by simp
next
  case (Cons iteration rest)
  from Cons.prems obtain strategy where
    sel: "select_optimal_strategy plan (search_results s) iteration = Inr strategy"
    using select_optimal_strategy_returns by blast
  obtain st' iteration_results
    where ex: "execute_strategic_search search (store s) strategy plan iteration = (st', iteration_results)"
    by (cases "execute_strategic_search search (store s) strategy plan iteration") auto
  from Cons.prems obtain q where
    q: "assess_result_quality iteration_results plan (search_results s) = Inr q"
    using assess_result_quality_returns by blast
  show ?case
    using sel ex q Cons.IH [OF Cons.prems] by (simp add: Let_def)
qed

text \<open>
  Claim C1. For every plan, every search capability (whatever it answers, also when it
  always raises or always returns nothing) and every \<open>max_iterations\<close>, the main loop of
  \<^verbatim>\<open>generate_recommendation\<close> runs at most \<open>max_iterations\<close> rounds (a round that an
  exception cuts short included); from any loop state on, the accumulated results keep
  the results they had as a prefix, so a round only appends; and at the end
  \<open>search_results\<close> is the concatenation of the per-round results, its length the sum of
  the per-round counts. The loop ends without an exception whenever the plan has a
  sub-goal and a strategy, as every plan of the planner has.
\<close>

theorem loop_bounded_append_only:
  assumes "run_agentic_loop max_iterations search st memory plan = (err, s)"
  shows "length (rounds s) + (case err of None \<Rightarrow> 0 | Some e \<Rightarrow> 1) \<le> nat max_iterations
     \<and> search_results s = concat (rounds s)
     \<and> length (search_results s) = sum_list (map length (rounds s))
     \<and> (sub_goals plan \<noteq> [] \<and> search_strategies plan \<noteq> [] \<longrightarrow> err = None)
     \<and> (\<forall>its s0 err' s'. agentic_loop max_iterations search plan its s0 = (err', s')
            \<longrightarrow> prefix (search_results s0) (search_results s')
                \<and> length (rounds s') - length (rounds s0) \<le> length its)"
proof -
  from assms agentic_loop_appends [of max_iterations search plan "[0..<nat max_iterations]"
      "initial_state st memory" err s]
  obtain new where new: "rounds s = new" "search_results s = concat new"
    "length new + (case err of None \<Rightarrow> 0 | Some e \<Rightarrow> 1) \<le> nat max_iterations"
    by (auto simp: run_agentic_loop_def initial_state_def)
  have len: "length (search_results s) = sum_list (map length (rounds s))"
    using new by (simp add: length_concat)
  have ok: "sub_goals plan \<noteq> [] \<and> search_strategies plan \<noteq> [] \<longrightarrow> err = None"
    using assms agentic_loop_no_raise [of plan max_iterations search "[0..<nat max_iterations]"
        "initial_state st memory"]
    by (auto simp: run_agentic_loop_def)
  have gen: "\<forall>its s0 err' s'. agentic_loop max_iterations search plan its s0 = (err', s')
            \<longrightarrow> prefix (search_results s0) (search_results s')
                \<and> length (rounds s') - length (rounds s0) \<le> length its"
  proof (intro allI impI)
    fix its s0 err' s'
    assume "agentic_loop max_iterations search plan its s0 = (err', s')"
    from agentic_loop_appends [OF this]
    show "prefix (search_results s0) (search_results s')
                \<and> length (rounds s') - length (rounds s0) \<le> length its"
      by auto
  qed
  from new len ok gen show ?thesis by simp
qed

lemmas run_eval_defs =
  run_agentic_loop_def initial_state_def general_plan_def create_strategic_plan_def
  select_optimal_strategy_def execute_broad_search_def execute_multi_angle_search_def
  execute_targeted_search_def execute_progressive_refinement_def
  search_terms_def angle_searches_def sub_goal_search_term_def
  results_lack_specificity_def results_need_refinement_def general_terms_def lower_def
  lower_char_def broad_result_def multi_angle_result_def targeted_result_def get_or_def
  distance_or_def assess_result_quality_def should_stop_searching_def get_meets_criteria_def
  default_success_criteria_def update_agent_memory_def upt_conv_Cons Let_def float_eval

subsection \<open>Two concrete runs\<close>

lemma fitness_only_run:
  "(case run_agentic_loop 3 fitness_only_search () Map.empty general_plan of
      (err, s) \<Rightarrow> (err, map relevance_score (search_results s), map length (rounds s)))
   = (None, [1 / 2, 1 / 2], [2, 0, 0])"
  by (simp add: run_eval_defs fitness_only_search_def bare_hit_def)

lemma one_hit_run:
  "(case run_agentic_loop 3 one_hit_search () Map.empty general_plan of
      (err, s) \<Rightarrow> (err, map relevance_score (search_results s), map length (rounds s)))
   = (None, [1 / 2, 1 / 2, 1 / 2, 1 / 2, 2 / 5, 2 / 5], [4, 1, 1])"
  by (simp add: run_eval_defs one_hit_search_def bare_hit_def)

lemma fitness_only_run_facts:
  "run_agentic_loop 3 fitness_only_search () Map.empty general_plan
     = (None, snd (run_agentic_loop 3 fitness_only_search () Map.empty general_plan))"
  "length (search_results (snd (run_agentic_loop 3 fitness_only_search () Map.empty general_plan))) = 2"
  "map length (rounds (snd (run_agentic_loop 3 fitness_only_search () Map.empty general_plan))) = [2, 0, 0]"
proof -
  let ?R = "run_agentic_loop 3 fitness_only_search () Map.empty general_plan"
  from fitness_only_run have f: "fst ?R = None"
    and r: "map relevance_score (search_results (snd ?R)) = [1 / 2, 1 / 2]"
    and l: "map length (rounds (snd ?R)) = [2, 0, 0]"
    by (simp_all add: case_prod_beta)
  from f show "?R = (None, snd ?R)" by (metis prod.collapse)
  from r have "length (map relevance_score (search_results (snd ?R))) = 2" by simp
  then show "length (search_results (snd ?R)) = 2" by simp
  from l show "map length (rounds (snd ?R)) = [2, 0, 0]" .
qed

lemma one_hit_run_facts:
  "run_agentic_loop 3 one_hit_search () Map.empty general_plan
     = (None, snd (run_agentic_loop 3 one_hit_search () Map.empty general_plan))"
  "length (search_results (snd (run_agentic_loop 3 one_hit_search () Map.empty general_plan))) = 6"
  "map length (rounds (snd (run_agentic_loop 3 one_hit_search () Map.empty general_plan))) = [4, 1, 1]"
proof -
  let ?R = "run_agentic_loop 3 one_hit_search () Map.empty general_plan"
  from one_hit_run have f: "fst ?R = None"
    and r: "map relevance_score (search_results (snd ?R)) = [1 / 2, 1 / 2, 1 / 2, 1 / 2, 2 / 5, 2 / 5]"
    and l: "map length (rounds (snd ?R)) = [4, 1, 1]"
    by (simp_all add: case_prod_beta)
  from f show "?R = (None, snd ?R)" by (metis prod.collapse)
  from r have "length (map relevance_score (search_results (snd ?R))) = 6" by simp
  then show "length (search_results (snd ?R)) = 6" by simp
  from l show "map length (rounds (snd ?R)) = [4, 1, 1]" .
qed


subsection \<open>The main loop, continued (C1)\<close>

theorem loop_bounded_append_only_witness:
  "fst (run_agentic_loop 3 fitness_only_search () Map.empty general_plan) = None
   \<and> length (rounds (snd (run_agentic_loop 3 fitness_only_search () Map.empty general_plan))) \<le> 3
   \<and> length (search_results (snd (run_agentic_loop 3 fitness_only_search () Map.empty general_plan)))
       = sum_list (map length (rounds (snd (run_agentic_loop 3 fitness_only_search () Map.empty general_plan))))"
proof -
  have h: "run_agentic_loop 3 fitness_only_search () Map.empty general_plan
            = (fst (run_agentic_loop 3 fitness_only_search () Map.empty general_plan),
               snd (run_agentic_loop 3 fitness_only_search () Map.empty general_plan))"
    by simp
  show ?thesis
    using loop_bounded_append_only [OF h] by (simp add: length_concat split: option.splits)
qed

subsection \<open>The payload's iterations\_used (C10)\<close>

lemma sum_lengths_ge:
  "\<forall>r \<in> set rs. r \<noteq> [] \<Longrightarrow> length rs \<le> sum_list (map length rs)"
proof (induction rs)
  case Nil
  then show ?case by simp
next
  case (Cons r rs)
  then have "r \<noteq> []" and "length rs \<le> sum_list (map length rs)"
    by simp_all
  then show ?case by (cases r) simp_all
qed

lemma sum_lengths_exceed:
  "\<forall>r \<in> set rs. r \<noteq> [] \<Longrightarrow> \<exists>r \<in> set rs. 1 < length r \<Longrightarrow>
     length rs < sum_list (map length rs)"
proof (induction rs)
  case Nil
  then show ?case by simp
next
  case (Cons r rs)
  from Cons.prems(1) have r: "r \<noteq> []" and rs: "\<forall>r \<in> set rs. r \<noteq> []"
    by simp_all
  have weak: "length rs \<le> sum_list (map length rs)"
    using rs by (rule sum_lengths_ge)
  show ?case
  proof (cases "1 < length r")
    case True
    with weak show ?thesis by simp
  next
    case False
    with Cons.prems(2) have "\<exists>r \<in> set rs. 1 < length r" by auto
    from Cons.IH [OF rs this] r show ?thesis by (cases r) simp_all
  qed
qed

lemma sum_lengths_zero: "\<forall>r \<in> set rs. r = [] \<Longrightarrow> sum_list (map length rs) = 0"
  by (induction rs) auto

text \<open>
  Claim C10, amended. In the payload of a run that ends without an exception,
  \<open>iterations_used\<close> is the number of accumulated SearchResult items, that is the sum of
  the per-round result counts, not the number of rounds: it is 0 when every round returns
  nothing, and it strictly exceeds the number of rounds when every round returns at least
  one result and some round returns more than one.
\<close>

theorem iterations_used_counts_results:
  assumes "run_agentic_loop max_iterations search st memory plan = (None, s)"
  shows "\<exists>payload. generate_recommendation max_iterations reflection_mode search st memory plan
            = Inr payload
     \<and> iterations_used payload = length (search_results s)
     \<and> iterations_used payload = sum_list (map length (rounds s))
     \<and> ((\<forall>r \<in> set (rounds s). r = []) \<longrightarrow> iterations_used payload = 0)
     \<and> ((\<forall>r \<in> set (rounds s). r \<noteq> []) \<and> (\<exists>r \<in> set (rounds s). 1 < length r)
          \<longrightarrow> length (rounds s) < iterations_used payload)"
proof -
  define payload where "payload = agentic_metadata reflection_mode plan s"
  have gen: "generate_recommendation max_iterations reflection_mode search st memory plan = Inr payload"
    using assms by (simp add: generate_recommendation_def payload_def)
  have used: "iterations_used payload = length (search_results s)"
    by (simp add: payload_def agentic_metadata_def)
  from assms agentic_loop_appends [of max_iterations search plan "[0..<nat max_iterations]"
      "initial_state st memory" None s]
  have "search_results s = concat (rounds s)"
    by (auto simp: run_agentic_loop_def initial_state_def)
  then have total: "iterations_used payload = sum_list (map length (rounds s))"
    using used by (simp add: length_concat)
  have zero: "(\<forall>r \<in> set (rounds s). r = []) \<longrightarrow> iterations_used payload = 0"
    using total sum_lengths_zero [of "rounds s"] by simp
  have more: "(\<forall>r \<in> set (rounds s). r \<noteq> []) \<and> (\<exists>r \<in> set (rounds s). 1 < length r)
          \<longrightarrow> length (rounds s) < iterations_used payload"
    using total sum_lengths_exceed [of "rounds s"] by simp
  from gen used total zero more show ?thesis by blast
qed

theorem iterations_used_counts_results_witness:
  "\<exists>payload. generate_recommendation 3 True one_hit_search () Map.empty general_plan = Inr payload
      \<and> iterations_used payload = 6
      \<and> length (rounds (snd (run_agentic_loop 3 one_hit_search () Map.empty general_plan)))
          < iterations_used payload"
proof -
  let ?s = "snd (run_agentic_loop 3 one_hit_search () Map.empty general_plan)"
  from iterations_used_counts_results [OF one_hit_run_facts(1), of True]
  obtain payload where p:
    "generate_recommendation 3 True one_hit_search () Map.empty general_plan = Inr payload"
    "iterations_used payload = length (search_results ?s)"
    "(\<forall>r \<in> set (rounds ?s). r \<noteq> []) \<and> (\<exists>r \<in> set (rounds ?s). 1 < length r)
       \<longrightarrow> length (rounds ?s) < iterations_used payload"
    by blast
  from one_hit_run_facts(3) obtain a b c where abc: "rounds ?s = [a, b, c]"
    "length a = 4" "length b = 1" "length c = 1"
    by (auto simp: map_eq_Cons_conv)
  then have "(\<forall>r \<in> set (rounds ?s). r \<noteq> []) \<and> (\<exists>r \<in> set (rounds ?s). 1 < length r)"
    by auto
  with p(3) have "length (rounds ?s) < iterations_used payload" by blast
  with p(1,2) one_hit_run_facts(2) show ?thesis by simp
qed

text \<open>
  The claim as written fails on a run of three rounds that return 2, 0 and 0 results:
  a round returned more than one result, yet \<open>iterations_used\<close> is 2, below the three
  rounds.
\<close>

theorem iterations_used_exceeds_rounds_counterexample:
  "map length (rounds (snd (run_agentic_loop 3 fitness_only_search () Map.empty general_plan)))
     = [2, 0, 0]
   \<and> map_sum id iterations_used
       (generate_recommendation 3 True fitness_only_search () Map.empty general_plan) = Inr 2"
proof -
  have "generate_recommendation 3 True fitness_only_search () Map.empty general_plan
          = Inr (agentic_metadata True general_plan
                   (snd (run_agentic_loop 3 fitness_only_search () Map.empty general_plan)))"
    unfolding generate_recommendation_def by (subst fitness_only_run_facts(1)) simp
  then show ?thesis
    using fitness_only_run_facts(2,3) by (simp add: agentic_metadata_def)
qed

subsection \<open>The reflector's planning\_effectiveness (C8)\<close>

text \<open>
  Claim C8 says that \<open>planning_effectiveness\<close> is true exactly when the run used at most
  \<open>plan.expected_iterations\<close> rounds. The code compares the number of accumulated
  results with \<open>plan.expected_iterations\<close> instead: on the run below, of three rounds
  with three expected iterations, six results are found and the field is false.
\<close>

theorem planning_effectiveness_counts_results:
  "length (rounds (snd (run_agentic_loop 3 one_hit_search () Map.empty general_plan))) = 3
   \<and> expected_iterations general_plan = 3
   \<and> map_sum id (map_option planning_effectiveness \<circ> agentic_insights)
       (generate_recommendation 3 True one_hit_search () Map.empty general_plan)
       = Inr (Some False)"
proof -
  have len: "length (map length (rounds (snd (run_agentic_loop 3 one_hit_search () Map.empty general_plan)))) = 3"
    by (simp only: one_hit_run_facts(3)) simp
  have "generate_recommendation 3 True one_hit_search () Map.empty general_plan
          = Inr (agentic_metadata True general_plan
                   (snd (run_agentic_loop 3 one_hit_search () Map.empty general_plan)))"
    unfolding generate_recommendation_def by (subst one_hit_run_facts(1)) simp
  then show ?thesis
    using len one_hit_run_facts(2)
    by (simp add: agentic_metadata_def generate_reflection_insights_def)
qed

end
